theory Spec2Isabelle
  imports Complex_Main
begin

section \<open>JavaScript values\<close>

text \<open>
  Strings are modelled by their UTF-8 bytes (\<open>string\<close> is \<open>char list\<close>), so
  \<open>Buffer.from(s)\<close> is the identity and a comparison of strings is a comparison of bytes.

  A value that came out of \<open>JSON.parse\<close> or \<open>response.json()\<close> is a \<open>json\<close>; an object
  keeps its members in the order of the text, and a repeated key reads as its last
  occurrence. A JavaScript number is a double; only whether it is zero matters below.
  \<open>undefined\<close> is not a JSON value: a JavaScript value is a \<open>json option\<close>, with \<open>None\<close>
  for \<open>undefined\<close>.
\<close>

datatype json =
    JNull
  | JBool bool
  | JNum real
  | JStr string
  | JArr "json list"
  | JObj "(string \<times> json) list"

type_synonym jsval = "json option"

text \<open>What a \<open>try\<close> block of the source can catch.\<close>

datatype js_exception =
    TypeError
  | RangeError
  | Rejected string

text \<open>Truthiness, as \<open>||\<close>, \<open>!\<close> and \<open>if\<close> read a value.\<close>

fun truthy :: "jsval \<Rightarrow> bool" where
  "truthy None = False"
| "truthy (Some JNull) = False"
| "truthy (Some (JBool b)) = b"
| "truthy (Some (JNum x)) = (x \<noteq> 0)"
| "truthy (Some (JStr s)) = (s \<noteq> [])"
| "truthy (Some (JArr xs)) = True"
| "truthy (Some (JObj kvs)) = True"

text \<open>
  \<open>v.k\<close> for one of the member names the source reads (none of them is a built-in
  property of a string, a number, a boolean or an array): a \<open>TypeError\<close> on \<open>undefined\<close>
  and \<open>null\<close>, the member of an object, \<open>undefined\<close> on anything else.
\<close>

fun getp :: "jsval \<Rightarrow> string \<Rightarrow> js_exception + jsval" where
  "getp None k = Inl TypeError"
| "getp (Some JNull) k = Inl TypeError"
| "getp (Some (JObj kvs)) k = Inr (map_of (rev kvs) k)"
| "getp (Some v) k = Inr None"

text \<open>\<open>process.env.X || ""\<close>\<close>

definition env_or_empty :: "string option \<Rightarrow> string" where
  "env_or_empty e = (case e of None \<Rightarrow> [] | Some s \<Rightarrow> s)"

text \<open>
  A \<open>Date\<close> object: a time value in milliseconds, or the Invalid Date that
  \<open>new Date(x)\<close> returns for an \<open>x\<close> it cannot read.
\<close>

datatype js_date = TimeValue int | InvalidDate

section \<open>The transaction store (src/lib/trexpay.ts)\<close>

record customer =
  name :: string
  email :: string
  phone :: string
  document :: string

record trackingParams =
  utm_source :: "string option"
  utm_campaign :: "string option"
  utm_medium :: "string option"
  utm_content :: "string option"
  utm_term :: "string option"
  src :: "string option"
  sck :: "string option"

record product =
  product_id :: string
  product_name :: string
  price :: real
  quantity :: real

text \<open>The \<open>data\<close> argument of \<open>saveTransaction\<close>.\<close>

record transaction_data =
  orderId :: string
  status :: string
  amount :: real
  customer :: customer
  trackingParams :: trackingParams
  products :: "product list"

text \<open>A stored record: the data, \<open>createdAt\<close> and the optional \<open>paidAt\<close>.\<close>

record transaction = transaction_data +
  createdAt :: js_date
  paidAt :: "js_date option"

text \<open>
  The \<open>Map\<close>. Its keys are declared strings, but nothing converts them: the
  charge-creation route saves under the identifier as the gateway sent it and the webhook
  handler looks up the identifier of its payload, a number as well as a string. So a key
  is a JavaScript value. The map compares keys by \<open>SameValueZero\<close>: strings, numbers,
  booleans, \<open>null\<close> and \<open>undefined\<close> by value, objects by identity. A key that is an
  array or an object stands for that one object; a value built anew, as \<open>JSON.parse\<close>
  builds it, is another object (see \<open>getTransaction_parsed\<close> below).
\<close>

type_synonym transactionStore = "jsval \<rightharpoonup> transaction"

text \<open>
  \<open>transactionStore.set(transactionId, {...data, createdAt: new Date()})\<close>; \<open>now\<close> is the
  clock's reading.
\<close>

definition saveTransaction ::
  "int \<Rightarrow> transactionStore \<Rightarrow> jsval \<Rightarrow> transaction_data \<Rightarrow> transactionStore" where
  "saveTransaction now store transactionId data =
     store(transactionId \<mapsto>
       transaction_data.extend data
         (transaction.fields (TimeValue now) None))"

definition getTransaction :: "transactionStore \<Rightarrow> jsval \<Rightarrow> transaction option" where
  "getTransaction store transactionId = store transactionId"

text \<open>
  \<open>getTransaction(v)\<close> for a value \<open>v\<close> read from a parsed payload. An array or an object
  that \<open>JSON.parse\<close> has just built is a new object, identical to no key of the map, so
  it finds nothing; every other value is compared by value.
\<close>

definition getTransaction_parsed :: "transactionStore \<Rightarrow> jsval \<Rightarrow> transaction option" where
  "getTransaction_parsed store v =
     (case v of
        Some (JArr xs) \<Rightarrow> None
      | Some (JObj kvs) \<Rightarrow> None
      | _ \<Rightarrow> getTransaction store v)"

text \<open>
  \<open>updateTransactionStatus(transactionId, status, paidAt?)\<close>: a \<open>Date\<close> object is always
  truthy, so \<open>if (paidAt)\<close> asks whether the argument was given.
\<close>

definition updateTransactionStatus ::
  "transactionStore \<Rightarrow> jsval \<Rightarrow> string \<Rightarrow> js_date option \<Rightarrow> transactionStore" where
  "updateTransactionStatus store transactionId st paidAt_arg =
     (case store transactionId of
        None \<Rightarrow> store
      | Some t \<Rightarrow>
          (let t1 = t\<lparr>status := st\<rparr>;
               t2 = (case paidAt_arg of None \<Rightarrow> t1 | Some d \<Rightarrow> t1\<lparr>paidAt := Some d\<rparr>)
           in store(transactionId \<mapsto> t2)))"

section \<open>Webhook signature (src/lib/trexpay.ts)\<close>

text \<open>
  \<open>crypto.timingSafeEqual(a, b)\<close> throws a \<open>RangeError\<close> when the two buffers differ in
  length and compares them byte by byte otherwise.
\<close>

definition timingSafeEqual :: "string \<Rightarrow> string \<Rightarrow> js_exception + bool" where
  "timingSafeEqual a b = (if length a \<noteq> length b then Inl RangeError else Inr (a = b))"

text \<open>
  \<open>verifyTrexPaySignature(payload, signature, secret)\<close>. The two library calls are
  parameters: \<open>hmac secret msg\<close> is
  \<open>crypto.createHmac("sha256", secret).update(msg).digest("hex")\<close> and \<open>stringify\<close> is
  \<open>JSON.stringify\<close>. An exception inside the \<open>try\<close> is caught and gives \<open>false\<close>.
\<close>

definition verifyTrexPaySignature ::
  "(string \<Rightarrow> string \<Rightarrow> string) \<Rightarrow> (json \<Rightarrow> string) \<Rightarrow> json \<Rightarrow> string \<Rightarrow> string \<Rightarrow> bool" where
  "verifyTrexPaySignature hmac stringify payload signature secret =
     (if signature = [] \<or> secret = [] then False
      else
        (let expectedSignature = ''sha256='' @ hmac secret (stringify payload)
         in case timingSafeEqual signature expectedSignature of
              Inl e \<Rightarrow> False
            | Inr b \<Rightarrow> b))"

section \<open>Status mapping (src/lib/trexpay.ts)\<close>

text \<open>
  \<open>String.prototype.toLowerCase\<close> on the bytes of a string: the letters \<open>A\<close> to \<open>Z\<close>
  become \<open>a\<close> to \<open>z\<close>, every other byte stays. JavaScript lower-cases a code point
  outside ASCII to code points of which one at least is outside ASCII again, or to the
  letter \<open>k\<close> (the Kelvin sign). No label of the \<open>switch\<close> below holds a \<open>k\<close> or a byte
  outside ASCII, so a string with such a code point matches no label, here as there, and
  \<open>mapTrexPayStatus\<close> gives what the source gives on every string.
\<close>

definition upper_letters :: string where
  "upper_letters = ''ABCDEFGHIJKLMNOPQRSTUVWXYZ''"

definition lower_letters :: string where
  "lower_letters = ''abcdefghijklmnopqrstuvwxyz''"

definition ascii_lower :: "char \<Rightarrow> char" where
  "ascii_lower c =
     (case map_of (zip upper_letters lower_letters) c of None \<Rightarrow> c | Some l \<Rightarrow> l)"

definition ascii_upper :: "char \<Rightarrow> char" where
  "ascii_upper c =
     (case map_of (zip lower_letters upper_letters) c of None \<Rightarrow> c | Some u \<Rightarrow> u)"

definition toLowerCase :: "string \<Rightarrow> string" where
  "toLowerCase s = map ascii_lower s"

definition mapTrexPayStatus :: "string \<Rightarrow> string" where
  "mapTrexPayStatus st =
     (let l = toLowerCase st in
      if l = ''paid'' \<or> l = ''approved'' \<or> l = ''completed'' then ''paid''
      else if l = ''cancelled'' \<or> l = ''canceled'' \<or> l = ''refused'' then ''cancelled''
      else if l = ''expired'' then ''expired''
      else ''pending'')"

text \<open>
  \<open>is_casing_of w s\<close>: \<open>s\<close> is the word \<open>w\<close> with each of its letters in either case.
\<close>

definition is_casing_of :: "string \<Rightarrow> string \<Rightarrow> bool" where
  "is_casing_of w s = list_all2 (\<lambda>a b. b = a \<or> b = ascii_upper a) w s"


section \<open>Exceptions as values\<close>

definition bind_exc :: "js_exception + 'a \<Rightarrow> ('a \<Rightarrow> js_exception + 'b) \<Rightarrow> js_exception + 'b" where
  "bind_exc m f = (case m of Inl e \<Rightarrow> Inl e | Inr v \<Rightarrow> f v)"

text \<open>\<open>d.k1 || d.k2 || ... || d.kn\<close>, the members read from left to right.\<close>

fun or_chain :: "jsval \<Rightarrow> string list \<Rightarrow> js_exception + jsval" where
  "or_chain d [] = Inr None"
| "or_chain d [k] = getp d k"
| "or_chain d (k # ks) =
     (case getp d k of
        Inl e \<Rightarrow> Inl e
      | Inr v \<Rightarrow> if truthy v then Inr v else or_chain d ks)"

text \<open>\<open>v?.k\<close>\<close>

definition opt_chain :: "jsval \<Rightarrow> string \<Rightarrow> js_exception + jsval" where
  "opt_chain v k = (case v of None \<Rightarrow> Inr None | Some JNull \<Rightarrow> Inr None | Some j \<Rightarrow> getp v k)"

section \<open>Charge creation (src/lib/trexpay.ts)\<close>

record TrexPayCreatePixRequest =
  req_amount :: real
  req_debtor_name :: string
  req_phone :: string
  req_email :: string
  req_debtor_document_number :: string
  req_postback :: string
  req_utm_source :: "string option"
  req_utm_campaign :: "string option"
  req_split_email :: "string option"
  req_split_percentage :: "string option"

text \<open>The \<open>requestBody\<close> sent to the gateway.\<close>

record gateway_body =
  body_token :: string
  body_secret :: string
  body_amount :: real
  body_debtor_name :: string
  body_phone :: string
  body_email :: string
  body_debtor_document_number :: string
  body_method_pay :: string
  body_postback :: string
  body_utm_source :: string
  body_utm_campaign :: string
  body_split_email :: string
  body_split_percentage :: string

text \<open>
  The \<open>error\<close> member of a result: a value (a literal of the source, or what the gateway
  sent), or \<open>String(error)\<close> of a caught exception.
\<close>

datatype error_text = ErrorValue json | ErrorOf js_exception

record TrexPayCreatePixResponse =
  success :: bool
  qrcode :: jsval
  qrcode_base64 :: jsval
  transaction_id :: jsval
  txid :: jsval
  expires_at :: jsval
  error :: "error_text option"

text \<open>
  What \<open>await fetch(...)\<close> and then \<open>await response.json()\<close> give: \<open>fetch\<close> rejects, or
  there is a response with its HTTP status, whose body is JSON or makes \<open>json()\<close> reject.
\<close>

datatype fetch_outcome =
    FetchRejected js_exception
  | FetchResponse nat "js_exception + json"

definition response_ok :: "nat \<Rightarrow> bool" where
  "response_ok st = (200 \<le> st \<and> st \<le> 299)"

definition failure :: "error_text \<Rightarrow> TrexPayCreatePixResponse" where
  "failure e =
     \<lparr>success = False, qrcode = None, qrcode_base64 = None, transaction_id = None,
      txid = None, expires_at = None, error = Some e\<rparr>"

definition str_or_empty :: "string option \<Rightarrow> string" where
  "str_or_empty x = (case x of None \<Rightarrow> [] | Some s \<Rightarrow> s)"

text \<open>\<open>a || lit\<close> for a truthy literal \<open>lit\<close>: never \<open>undefined\<close>.\<close>

definition js_or_lit :: "jsval \<Rightarrow> json \<Rightarrow> json" where
  "js_or_lit a lit = (case a of None \<Rightarrow> lit | Some v \<Rightarrow> if truthy a then v else lit)"

text \<open>The part of \<open>createTrexPayPix\<close> after \<open>await response.json()\<close>.\<close>

definition createTrexPayPix_result :: "nat \<Rightarrow> json \<Rightarrow> js_exception + TrexPayCreatePixResponse" where
  "createTrexPayPix_result st responseData =
     (let d = Some responseData in
      if \<not> response_ok st then
        bind_exc (or_chain d [''message'', ''error'']) (\<lambda>m.
          Inr (failure (ErrorValue (js_or_lit m (JStr ''Erro ao criar PIX'')))))
      else
        bind_exc (or_chain d [''qrcode'', ''pix_code'', ''emv'']) (\<lambda>q.
        bind_exc (or_chain d [''qrcode_base64'', ''qr_code_base64'']) (\<lambda>qb.
        bind_exc (or_chain d [''transaction_id'', ''id'', ''idTransaction'']) (\<lambda>ti.
        bind_exc (or_chain d [''txid'', ''tx_id'']) (\<lambda>tx.
        bind_exc (or_chain d [''expires_at'', ''expiration'']) (\<lambda>ex.
          Inr \<lparr>success = True, qrcode = q, qrcode_base64 = qb, transaction_id = ti,
               txid = tx, expires_at = ex, error = None\<rparr>))))))"

text \<open>The \<open>requestBody\<close> that \<open>createTrexPayPix\<close> builds.\<close>

definition requestBody :: "string \<Rightarrow> string \<Rightarrow> TrexPayCreatePixRequest \<Rightarrow> gateway_body" where
  "requestBody token secret request =
     \<lparr>body_token = token,
      body_secret = secret,
      body_amount = req_amount request,
      body_debtor_name = req_debtor_name request,
      body_phone = req_phone request,
      body_email = req_email request,
      body_debtor_document_number = req_debtor_document_number request,
      body_method_pay = ''pix'',
      body_postback = req_postback request,
      body_utm_source = str_or_empty (req_utm_source request),
      body_utm_campaign = str_or_empty (req_utm_campaign request),
      body_split_email = str_or_empty (req_split_email request),
      body_split_percentage = str_or_empty (req_split_percentage request)\<rparr>"

text \<open>
  \<open>createTrexPayPix(request)\<close>. \<open>fetch\<close> is the gateway as the function sees it; the
  second component of the result lists the outbound calls that were made.
\<close>

definition createTrexPayPix ::
  "(gateway_body \<Rightarrow> fetch_outcome) \<Rightarrow> string option \<Rightarrow> string option \<Rightarrow>
   TrexPayCreatePixRequest \<Rightarrow> TrexPayCreatePixResponse \<times> gateway_body list" where
  "createTrexPayPix fetch env_token env_secret request =
     (let TREXPAY_TOKEN = env_or_empty env_token;
          TREXPAY_SECRET = env_or_empty env_secret
      in
      if TREXPAY_TOKEN = [] \<or> TREXPAY_SECRET = [] then
        (failure (ErrorValue (JStr (''Credenciais TrexPay n'' @ [CHR 0xC3, CHR 0xA3] @
                                     ''o configuradas''))), [])
      else
        (let body = requestBody TREXPAY_TOKEN TREXPAY_SECRET request
         in
         (case fetch body of
            FetchRejected e \<Rightarrow> (failure (ErrorOf e), [body])
          | FetchResponse st parsed \<Rightarrow>
              (case bind_exc parsed (createTrexPayPix_result st) of
                 Inl e \<Rightarrow> (failure (ErrorOf e), [body])
               | Inr r \<Rightarrow> (r, [body])))))"

section \<open>HTTP responses\<close>

text \<open>\<open>NextResponse.json(body, {status})\<close>; the status is 200 when none is given.\<close>

record http_response =
  http_status :: nat
  http_body :: json

section \<open>Status query (GET of src/app/api/pix/status/route.ts)\<close>

text \<open>
  \<open>transaction.paidAt?.toISOString() || null\<close>. \<open>toISOString\<close> throws a \<open>RangeError\<close> on
  the Invalid Date; on a time value it is the library's formatting function, a parameter.
\<close>

definition paidAt_iso :: "(int \<Rightarrow> string) \<Rightarrow> js_date option \<Rightarrow> js_exception + json" where
  "paidAt_iso toISOString p =
     (case p of
        None \<Rightarrow> Inr JNull
      | Some InvalidDate \<Rightarrow> Inl RangeError
      | Some (TimeValue ms) \<Rightarrow>
          Inr (js_or_lit (Some (JStr (toISOString ms))) JNull))"

text \<open>
  The handler; \<open>transactionId_param\<close> is \<open>searchParams.get("transactionId")\<close>, \<open>None\<close>
  for \<open>null\<close>.
\<close>

definition status_GET ::
  "(int \<Rightarrow> string) \<Rightarrow> transactionStore \<Rightarrow> string option \<Rightarrow> http_response" where
  "status_GET toISOString store transactionId_param =
     (let bad_request =
            \<lparr>http_status = 400,
             http_body = JObj [(''error'', JStr (''transactionId '' @ [CHR 0xC3, CHR 0xA9] @
                                   '' obrigat'' @ [CHR 0xC3, CHR 0xB3] @ ''rio''))]\<rparr>
      in
      case transactionId_param of
        None \<Rightarrow> bad_request
      | Some transactionId \<Rightarrow>
          if transactionId = [] then bad_request
          else
            (case getTransaction store (Some (JStr transactionId)) of
               Some t \<Rightarrow>
                 (case paidAt_iso toISOString (paidAt t) of
                    Inl e \<Rightarrow>
                      \<lparr>http_status = 500,
                       http_body = JObj [(''error'', JStr ''Erro interno ao consultar status'')]\<rparr>
                  | Inr p \<Rightarrow>
                      \<lparr>http_status = 200,
                       http_body = JObj [(''success'', JBool True),
                                         (''transactionId'', JStr transactionId),
                                         (''orderId'', JStr (orderId t)),
                                         (''status'', JStr (status t)),
                                         (''paidAt'', p)]\<rparr>)
             | None \<Rightarrow>
                 \<lparr>http_status = 200,
                  http_body = JObj [(''success'', JBool True),
                                    (''transactionId'', JStr transactionId),
                                    (''status'', JStr ''pending'')]\<rparr>))"

section \<open>Webhook receiver (POST of the webhook route)\<close>

text \<open>\<open>headers.get("x-signature") || headers.get("signature") || ""\<close>\<close>

definition header_signature :: "string option \<Rightarrow> string option \<Rightarrow> string" where
  "header_signature x_signature signature =
     (if str_or_empty x_signature \<noteq> [] then str_or_empty x_signature
      else str_or_empty signature)"

text \<open>\<open>data.idTransaction || data.metadata?.txid\<close>\<close>

definition webhook_transactionId :: "jsval \<Rightarrow> js_exception + jsval" where
  "webhook_transactionId data =
     bind_exc (getp data ''idTransaction'') (\<lambda>i.
       if truthy i then Inr i
       else bind_exc (getp data ''metadata'') (\<lambda>m. opt_chain m ''txid''))"

text \<open>
  \<open>mapTrexPayStatus(data.status)\<close> on a value that need not be a string: \<open>toLowerCase\<close>
  is a method of strings only, and the call is a \<open>TypeError\<close> on anything else.
\<close>

definition mapTrexPayStatus_js :: "jsval \<Rightarrow> js_exception + string" where
  "mapTrexPayStatus_js v =
     (case v of Some (JStr s) \<Rightarrow> Inr (mapTrexPayStatus s) | _ \<Rightarrow> Inl TypeError)"

text \<open>
  \<open>status === "paid" ? new Date(data.paid_at || Date.now()) : undefined\<close>. \<open>newDate\<close> is
  the \<open>Date\<close> constructor on a value of the payload: it gives a date, the Invalid Date
  among them, or throws (a \<open>TypeError\<close> on an object that cannot be converted to a
  primitive value, such as one with a member \<open>toString\<close> of its own, which is never
  callable). \<open>now\<close> is \<open>Date.now()\<close>, and \<open>new Date(now)\<close> is that time value.
\<close>

definition webhook_paidAt ::
  "(json \<Rightarrow> js_exception + js_date) \<Rightarrow> int \<Rightarrow> jsval \<Rightarrow> string \<Rightarrow>
   js_exception + js_date option" where
  "webhook_paidAt newDate now data st =
     (if st = ''paid'' then
        bind_exc (getp data ''paid_at'') (\<lambda>p.
          case p of
            None \<Rightarrow> Inr (Some (TimeValue now))
          | Some j \<Rightarrow>
              if truthy p then bind_exc (newDate j) (\<lambda>d. Inr (Some d))
              else Inr (Some (TimeValue now)))
      else Inr None)"

definition acknowledged :: http_response where
  "acknowledged =
     \<lparr>http_status = 200,
      http_body = JObj [(''success'', JBool True),
                        (''message'', JStr ''Transaction not found but acknowledged'')]\<rparr>"

text \<open>
  The handler from \<open>const { data } = payload\<close> on. The transaction id is looked up as it
  was read, whatever its type. The calls to the attribution service that follow the
  update stand inside their own \<open>try\<close>/\<open>catch\<close>; the client is taken to return or to
  throw, so they change neither the store nor the response, and they are left out.
\<close>

definition webhook_process ::
  "(json \<Rightarrow> js_exception + js_date) \<Rightarrow> int \<Rightarrow> transactionStore \<Rightarrow> json \<Rightarrow>
   js_exception + (http_response \<times> transactionStore)" where
  "webhook_process newDate now store payload =
     bind_exc (getp (Some payload) ''data'') (\<lambda>data.
     bind_exc (webhook_transactionId data) (\<lambda>transactionId.
     bind_exc (getp data ''status'') (\<lambda>raw.
     bind_exc (mapTrexPayStatus_js raw) (\<lambda>st.
       case getTransaction_parsed store transactionId of
         None \<Rightarrow> Inr (acknowledged, store)
       | Some t \<Rightarrow>
           bind_exc (webhook_paidAt newDate now data st) (\<lambda>paidAt_arg.
             Inr (\<lparr>http_status = 200,
                   http_body = JObj [(''success'', JBool True), (''status'', JStr st)]\<rparr>,
                  updateTransactionStatus store transactionId st paidAt_arg))))))"

text \<open>
  The whole handler. \<open>parse\<close> is \<open>JSON.parse\<close> (\<open>None\<close> when it throws), \<open>env_secret\<close> is
  \<open>process.env.TREXPAY_SECRET\<close>; \<open>verifyTrexPaySignature\<close> is called without a secret
  and so uses the module's constant \<open>TREXPAY_SECRET\<close>. An exception anywhere is caught
  by the outer \<open>try\<close>; none can come after the store was updated.
\<close>

definition webhook_POST ::
  "(string \<Rightarrow> string \<Rightarrow> string) \<Rightarrow> (json \<Rightarrow> string) \<Rightarrow> (string \<Rightarrow> json option) \<Rightarrow>
   (json \<Rightarrow> js_exception + js_date) \<Rightarrow> int \<Rightarrow> string option \<Rightarrow> transactionStore \<Rightarrow>
   string option \<Rightarrow> string option \<Rightarrow> string \<Rightarrow> http_response \<times> transactionStore" where
  "webhook_POST hmac stringify parse newDate now env_secret store x_signature signature_hdr rawBody =
     (let signature = header_signature x_signature signature_hdr;
          internal_error =
            \<lparr>http_status = 500, http_body = JObj [(''error'', JStr ''Internal server error'')]\<rparr>
      in
      case parse rawBody of
        None \<Rightarrow>
          (\<lparr>http_status = 400, http_body = JObj [(''error'', JStr ''Invalid JSON'')]\<rparr>, store)
      | Some payload \<Rightarrow>
          (case getp (Some payload) ''event'' of
             Inl e \<Rightarrow> (internal_error, store)
           | Inr ev \<Rightarrow>
               if signature \<noteq> [] \<and> env_or_empty env_secret \<noteq> [] \<and>
                  \<not> verifyTrexPaySignature hmac stringify payload signature
                      (env_or_empty env_secret)
               then
                 (\<lparr>http_status = 401, http_body = JObj [(''error'', JStr ''Invalid signature'')]\<rparr>,
                  store)
               else
                 (case webhook_process newDate now store payload of
                    Inl e \<Rightarrow> (internal_error, store)
                  | Inr r \<Rightarrow> r)))"


section \<open>Example data\<close>

text \<open>
  The charge of the specification's scenario (amount 49.90, customer Ana), as the
  charge-creation route saves it, and a store that holds it under the id \<open>TX1\<close>.
\<close>

definition example_data :: transaction_data where
  "example_data =
     \<lparr>orderId = ''PED-1'', status = ''pending'', amount = 4990 / 100,
      customer = \<lparr>name = ''Ana'', email = ''a@x.com'', phone = ''11999999999'',
                  document = ''12345678900''\<rparr>,
      trackingParams = \<lparr>utm_source = None, utm_campaign = None, utm_medium = None,
                        utm_content = None, utm_term = None, src = None, sck = None\<rparr>,
      products = [\<lparr>product_id = ''product'', product_name = ''Caderno'',
                   price = 4990 / 100, quantity = 1\<rparr>]\<rparr>"

definition example_store :: transactionStore where
  "example_store =
     saveTransaction 1700000000000 Map.empty (Some (JStr ''TX1'')) example_data"

text \<open>The same store after the charge was paid.\<close>

definition example_store_paid :: transactionStore where
  "example_store_paid =
     updateTransactionStatus example_store (Some (JStr ''TX1'')) ''paid''
       (Some (TimeValue 1700000060000))"

text \<open>
  The same store after a webhook reported the payment with a \<open>paid_at\<close> that the \<open>Date\<close>
  constructor cannot read.
\<close>

definition example_store_invalid_date :: transactionStore where
  "example_store_invalid_date =
     updateTransactionStatus example_store (Some (JStr ''TX1'')) ''paid'' (Some InvalidDate)"

text \<open>
  A webhook body for the transaction \<open>tid\<close> with the raw status \<open>raw\<close>, already parsed.
\<close>

definition example_payload :: "string \<Rightarrow> string \<Rightarrow> json" where
  "example_payload tid raw =
     JObj [(''event'', JStr ''payment''),
           (''data'', JObj [(''idTransaction'', JStr tid), (''status'', JStr raw)])]"

text \<open>
  A store that holds the charge under the number 12345, as the charge-creation route
  saves it when the gateway's identifier is a number, and a webhook body that reports
  its payment.
\<close>

definition example_store_numeric :: transactionStore where
  "example_store_numeric =
     saveTransaction 1700000000000 Map.empty (Some (JNum 12345)) example_data"

definition example_payload_numeric :: json where
  "example_payload_numeric =
     JObj [(''event'', JStr ''payment''),
           (''data'', JObj [(''idTransaction'', JNum 12345), (''status'', JStr ''paid'')])]"

text \<open>A webhook body for the transaction \<open>TX1\<close> that has no status.\<close>

definition example_payload_no_status :: json where
  "example_payload_no_status =
     JObj [(''event'', JStr ''payment''),
           (''data'', JObj [(''idTransaction'', JStr ''TX1'')])]"

text \<open>
  A webhook body that reports a payment of \<open>TX1\<close> with an object for \<open>paid_at\<close> that
  cannot be converted to a primitive value.
\<close>

definition example_payload_object_date :: json where
  "example_payload_object_date =
     JObj [(''event'', JStr ''payment''),
           (''data'', JObj [(''idTransaction'', JStr ''TX1''), (''status'', JStr ''paid''),
                            (''paid_at'', JObj [(''toString'', JNull)])])]"

text \<open>A webhook body that reports a payment with an unreadable \<open>paid_at\<close>.\<close>

definition example_payload_bad_date :: json where
  "example_payload_bad_date =
     JObj [(''event'', JStr ''payment''),
           (''data'', JObj [(''idTransaction'', JStr ''TX1''), (''status'', JStr ''paid''),
                            (''paid_at'', JStr ''not a date'')])]"

text \<open>
  Stand-ins for the library functions in the examples: a digest of 64 hex digits, a
  serialisation, a parser that reads every body as the given payload, and a \<open>Date\<close>
  constructor that throws on an object with a member \<open>toString\<close> of its own, as the real
  one does, and reads nothing else. The examples either skip the verification or use a
  signature too short for any digest, so nothing depends on the digest or the
  serialisation.
\<close>

definition example_hmac :: "string \<Rightarrow> string \<Rightarrow> string" where
  "example_hmac secret msg = replicate 64 (CHR ''0'')"

definition example_stringify :: "json \<Rightarrow> string" where
  "example_stringify j = ''{}''"

definition example_parse :: "json \<Rightarrow> string \<Rightarrow> json option" where
  "example_parse payload rawBody = Some payload"

definition example_newDate :: "json \<Rightarrow> js_exception + js_date" where
  "example_newDate j =
     (case j of
        JObj kvs \<Rightarrow>
          (case map_of (rev kvs) ''toString'' of
             None \<Rightarrow> Inr InvalidDate
           | Some f \<Rightarrow> Inl TypeError)
      | _ \<Rightarrow> Inr InvalidDate)"

text \<open>A gateway that answers every call with HTTP \<open>st\<close> and the JSON body \<open>j\<close>.\<close>

definition example_fetch :: "nat \<Rightarrow> json \<Rightarrow> gateway_body \<Rightarrow> fetch_outcome" where
  "example_fetch st j b = FetchResponse st (Inr j)"

definition example_request :: TrexPayCreatePixRequest where
  "example_request =
     \<lparr>req_amount = 4990 / 100, req_debtor_name = ''Ana'', req_phone = ''11999999999'',
      req_email = ''a@x.com'', req_debtor_document_number = ''12345678900'',
      req_postback = ''https://seusite.com/api/webhook/trexpay'',
      req_utm_source = None, req_utm_campaign = None,
      req_split_email = None, req_split_percentage = None\<rparr>"

section \<open>Helper lemmas\<close>

lemma ascii_lower_cases:
  "ascii_lower b =
  (if b = CHR ''A'' then CHR ''a'' else if b = CHR ''B'' then CHR ''b''
   else if b = CHR ''C'' then CHR ''c'' else if b = CHR ''D'' then CHR ''d''
   else if b = CHR ''E'' then CHR ''e'' else if b = CHR ''F'' then CHR ''f''
   else if b = CHR ''G'' then CHR ''g'' else if b = CHR ''H'' then CHR ''h''
   else if b = CHR ''I'' then CHR ''i'' else if b = CHR ''J'' then CHR ''j''
   else if b = CHR ''K'' then CHR ''k'' else if b = CHR ''L'' then CHR ''l''
   else if b = CHR ''M'' then CHR ''m'' else if b = CHR ''N'' then CHR ''n''
   else if b = CHR ''O'' then CHR ''o'' else if b = CHR ''P'' then CHR ''p''
   else if b = CHR ''Q'' then CHR ''q'' else if b = CHR ''R'' then CHR ''r''
   else if b = CHR ''S'' then CHR ''s'' else if b = CHR ''T'' then CHR ''t''
   else if b = CHR ''U'' then CHR ''u'' else if b = CHR ''V'' then CHR ''v''
   else if b = CHR ''W'' then CHR ''w'' else if b = CHR ''X'' then CHR ''x''
   else if b = CHR ''Y'' then CHR ''y'' else if b = CHR ''Z'' then CHR ''z'' else b)"
  by (simp add: ascii_lower_def upper_letters_def lower_letters_def)

text \<open>For a lower-case letter, the two casings are exactly what \<open>ascii_lower\<close> sends to it.\<close>

lemma ascii_lower_eq_iff:
  assumes "a \<in> set lower_letters"
  shows "(b = a \<or> b = ascii_upper a) \<longleftrightarrow> ascii_lower b = a"
  using assms unfolding lower_letters_def
  apply (simp only: set_simps insert_iff empty_iff)
  apply (elim disjE)
  apply (simp_all add: ascii_upper_def upper_letters_def lower_letters_def)
  apply (simp_all add: ascii_lower_cases)
  done

lemma is_casing_of_iff:
  "set w \<subseteq> set lower_letters \<Longrightarrow> is_casing_of w s \<longleftrightarrow> toLowerCase s = w"
proof (induction w arbitrary: s)
  case Nil
  then show ?case by (simp add: is_casing_of_def toLowerCase_def)
next
  case (Cons a w)
  then have a: "a \<in> set lower_letters" and w: "set w \<subseteq> set lower_letters" by simp_all
  show ?case
  proof (cases s)
    case Nil
    then show ?thesis by (simp add: is_casing_of_def toLowerCase_def)
  next
    case (Cons b s')
    have "is_casing_of (a # w) (b # s') \<longleftrightarrow> (b = a \<or> b = ascii_upper a) \<and> is_casing_of w s'"
      by (simp add: is_casing_of_def)
    also have "\<dots> \<longleftrightarrow> ascii_lower b = a \<and> toLowerCase s' = w"
      using ascii_lower_eq_iff [OF a] Cons.IH [OF w] by simp
    also have "\<dots> \<longleftrightarrow> toLowerCase (b # s') = a # w"
      by (simp add: toLowerCase_def)
    finally show ?thesis using Cons by simp
  qed
qed

text \<open>The example store, evaluated.\<close>

lemma example_store_apply:
  "example_store k =
     (if k = Some (JStr ''TX1'')
      then Some (transaction_data.extend example_data
                   (transaction.fields (TimeValue 1700000000000) None))
      else None)"
  by (simp add: example_store_def saveTransaction_def)

lemma example_store_TX1:
  "example_store (Some (JStr ''TX1'')) =
     Some (transaction_data.extend example_data
             (transaction.fields (TimeValue 1700000000000) None))"
  by (simp add: example_store_apply)

lemma example_data_fields:
  "status (transaction_data.extend example_data x) = ''pending''"
  "orderId (transaction_data.extend example_data x) = ''PED-1''"
  by (simp_all add: example_data_def transaction_data.extend_def)

lemma example_store_invalid_date_TX1:
  "example_store_invalid_date (Some (JStr ''TX1'')) =
     Some ((transaction_data.extend example_data
              (transaction.fields (TimeValue 1700000000000) None))
           \<lparr>status := ''paid'', paidAt := Some InvalidDate\<rparr>)"
  by (simp add: example_store_invalid_date_def updateTransactionStatus_def example_store_apply)

lemma example_store_paid_TX1:
  "example_store_paid (Some (JStr ''TX1'')) =
     Some ((transaction_data.extend example_data
              (transaction.fields (TimeValue 1700000000000) None))
           \<lparr>status := ''paid'', paidAt := Some (TimeValue 1700000060000)\<rparr>)"
  by (simp add: example_store_paid_def updateTransactionStatus_def example_store_apply)

text \<open>A value that is found in the store is found under itself.\<close>

lemma getTransaction_parsed_Some:
  assumes "getTransaction_parsed store v = Some t"
  shows "store v = Some t"
  using assms
  by (simp add: getTransaction_parsed_def getTransaction_def split: option.splits json.splits)

lemma getTransaction_parsed_string:
  "getTransaction_parsed store (Some (JStr s)) = store (Some (JStr s))"
  by (simp add: getTransaction_parsed_def getTransaction_def)

text \<open>What \<open>updateTransactionStatus\<close> does to a stored record and to the others.\<close>

lemma updateTransactionStatus_Some:
  assumes "store tid = Some t"
  shows "updateTransactionStatus store tid st p =
     store(tid \<mapsto> t\<lparr>status := st, paidAt := (case p of None \<Rightarrow> paidAt t | Some d \<Rightarrow> Some d)\<rparr>)"
  using assms by (cases p) (simp_all add: updateTransactionStatus_def)

lemma updateTransactionStatus_status:
  assumes "store tid = Some t"
  shows "map_option status (updateTransactionStatus store tid st p tid) = Some st"
  using assms by (cases p) (simp_all add: updateTransactionStatus_def)

text \<open>Reading a member fails or succeeds with the object, whatever the member's name.\<close>

lemma getp_Inr_any:
  assumes "getp d k = Inr v"
  shows "\<exists>v'. getp d k' = Inr v'"
  using assms by (cases "(d, k)" rule: getp.cases) simp_all

text \<open>The \<open>paidAt\<close> argument is given exactly when the mapped status is \<open>paid\<close>.\<close>

lemma webhook_paidAt_None_iff:
  assumes "webhook_paidAt newDate now data st = Inr pa"
  shows "pa = None \<longleftrightarrow> st \<noteq> ''paid''"
  using assms
  by (auto simp add: webhook_paidAt_def bind_exc_def split: if_splits sum.splits option.splits)

text \<open>Without a truthy \<open>paid_at\<close> the \<open>Date\<close> constructor is given the clock's reading.\<close>

lemma webhook_paidAt_no_paid_at:
  assumes "getp data ''paid_at'' = Inr p" and "\<not> truthy p"
  shows "webhook_paidAt newDate now data st =
     Inr (if st = ''paid'' then Some (TimeValue now) else None)"
  using assms by (cases p) (simp_all add: webhook_paidAt_def bind_exc_def)

text \<open>Processing a well-formed event for a stored transaction.\<close>

lemma webhook_process_known:
  assumes "getp (Some payload) ''data'' = Inr data"
    and "webhook_transactionId data = Inr tid"
    and "getp data ''status'' = Inr (Some (JStr raw))"
    and "getTransaction_parsed store tid = Some t"
  shows "webhook_process newDate now store payload =
     (case webhook_paidAt newDate now data (mapTrexPayStatus raw) of
        Inl e \<Rightarrow> Inl e
      | Inr pa \<Rightarrow>
          Inr (\<lparr>http_status = 200,
                http_body = JObj [(''success'', JBool True),
                                  (''status'', JStr (mapTrexPayStatus raw))]\<rparr>,
               updateTransactionStatus store tid (mapTrexPayStatus raw) pa))"
  using assms
  by (simp add: webhook_process_def bind_exc_def mapTrexPayStatus_js_def split: sum.splits)

text \<open>The handler when the signature check is not made.\<close>

lemma webhook_POST_unverified:
  assumes "header_signature xs sg = [] \<or> env_or_empty env_secret = []"
    and "parse rawBody = Some payload"
    and "getp (Some payload) ''data'' = Inr data"
  shows "webhook_POST hmac stringify parse newDate now env_secret store xs sg rawBody =
     (case webhook_process newDate now store payload of
        Inl e \<Rightarrow> (\<lparr>http_status = 500,
                    http_body = JObj [(''error'', JStr ''Internal server error'')]\<rparr>, store)
      | Inr r \<Rightarrow> r)"
proof -
  obtain ev where "getp (Some payload) ''event'' = Inr ev"
    using getp_Inr_any [OF assms(3)] by blast
  then show ?thesis
    using assms(1,2) by (auto simp add: webhook_POST_def Let_def)
qed

text \<open>The example payloads and statuses, evaluated.\<close>

lemma example_payload_getp:
  "getp (Some (example_payload tid raw)) ''data'' =
     Inr (Some (JObj [(''idTransaction'', JStr tid), (''status'', JStr raw)]))"
  "getp (Some (JObj [(''idTransaction'', JStr tid), (''status'', JStr raw)])) ''status'' =
     Inr (Some (JStr raw))"
  "getp (Some (JObj [(''idTransaction'', JStr tid), (''status'', JStr raw)])) ''paid_at'' =
     Inr None"
  by (simp_all add: example_payload_def)

lemma example_payload_transactionId:
  "tid \<noteq> [] \<Longrightarrow>
   webhook_transactionId (Some (JObj [(''idTransaction'', JStr tid), (''status'', JStr raw)])) =
     Inr (Some (JStr tid))"
  by (simp add: webhook_transactionId_def bind_exc_def)

lemma example_payload_paidAt:
  "webhook_paidAt newDate now
     (Some (JObj [(''idTransaction'', JStr tid), (''status'', JStr raw)])) st =
     Inr (if st = ''paid'' then Some (TimeValue now) else None)"
  by (rule webhook_paidAt_no_paid_at [OF example_payload_getp(3)]) simp

lemma mapTrexPayStatus_examples:
  "mapTrexPayStatus ''approved'' = ''paid''"
  "mapTrexPayStatus ''pending'' = ''pending''"
  "mapTrexPayStatus ''paid'' = ''paid''"
  by (simp_all add: mapTrexPayStatus_def toLowerCase_def ascii_lower_cases)

text \<open>An unsigned webhook for a stored transaction, with the example payload.\<close>

lemma webhook_POST_example:
  assumes "tid \<noteq> []" and "store (Some (JStr tid)) = Some t"
  shows "webhook_POST hmac stringify (example_parse (example_payload tid raw)) newDate now
           None store None None rawBody =
         (\<lparr>http_status = 200,
           http_body = JObj [(''success'', JBool True),
                             (''status'', JStr (mapTrexPayStatus raw))]\<rparr>,
          updateTransactionStatus store (Some (JStr tid)) (mapTrexPayStatus raw)
            (if mapTrexPayStatus raw = ''paid'' then Some (TimeValue now) else None))"
proof -
  have found: "getTransaction_parsed store (Some (JStr tid)) = Some t"
    using assms(2) by (simp add: getTransaction_parsed_string)
  have proc: "webhook_process newDate now store (example_payload tid raw) =
      Inr (\<lparr>http_status = 200,
            http_body = JObj [(''success'', JBool True),
                              (''status'', JStr (mapTrexPayStatus raw))]\<rparr>,
           updateTransactionStatus store (Some (JStr tid)) (mapTrexPayStatus raw)
             (if mapTrexPayStatus raw = ''paid'' then Some (TimeValue now) else None))"
    unfolding webhook_process_known [where store = store and tid = "Some (JStr tid)",
        OF example_payload_getp(1) example_payload_transactionId [OF assms(1)]
           example_payload_getp(2) found]
      example_payload_paidAt
    by simp
  have "webhook_POST hmac stringify (example_parse (example_payload tid raw)) newDate now None
           store None None rawBody =
     (case webhook_process newDate now store (example_payload tid raw) of
        Inl e \<Rightarrow> (\<lparr>http_status = 500,
                    http_body = JObj [(''error'', JStr ''Internal server error'')]\<rparr>, store)
      | Inr r \<Rightarrow> r)"
    by (rule webhook_POST_unverified [where payload = "example_payload tid raw"
          and data = "Some (JObj [(''idTransaction'', JStr tid), (''status'', JStr raw)])"])
       (simp_all add: env_or_empty_def example_parse_def example_payload_getp)
  then show ?thesis
    by (simp add: proc)
qed

text \<open>
  The status query and the Invalid Date: a webhook that reports a payment with a
  \<open>paid_at\<close> the \<open>Date\<close> constructor cannot read stores the Invalid Date in the record,
  and the query answers 200 for every record whose \<open>paidAt\<close> is absent or a time value.
\<close>

lemma example_payload_bad_date_getp:
  "getp (Some example_payload_bad_date) ''data'' =
     Inr (Some (JObj [(''idTransaction'', JStr ''TX1''), (''status'', JStr ''paid''),
                      (''paid_at'', JStr ''not a date'')]))"
  "getp (Some (JObj [(''idTransaction'', JStr ''TX1''), (''status'', JStr ''paid''),
                      (''paid_at'', JStr ''not a date'')])) ''status'' = Inr (Some (JStr ''paid''))"
  "webhook_transactionId (Some (JObj [(''idTransaction'', JStr ''TX1''), (''status'', JStr ''paid''),
                      (''paid_at'', JStr ''not a date'')])) = Inr (Some (JStr ''TX1''))"
  by (simp_all add: example_payload_bad_date_def webhook_transactionId_def bind_exc_def)

lemma webhook_stores_invalid_date:
  assumes "newDate (JStr ''not a date'') = Inr InvalidDate"
  shows "webhook_POST hmac stringify (example_parse example_payload_bad_date) newDate now None
           example_store None None rawBody =
         (\<lparr>http_status = 200,
           http_body = JObj [(''success'', JBool True), (''status'', JStr ''paid'')]\<rparr>,
          example_store_invalid_date)"
proof -
  have pa: "webhook_paidAt newDate now
      (Some (JObj [(''idTransaction'', JStr ''TX1''), (''status'', JStr ''paid''),
                   (''paid_at'', JStr ''not a date'')])) ''paid'' = Inr (Some InvalidDate)"
    using assms by (simp add: webhook_paidAt_def bind_exc_def)
  have found: "getTransaction_parsed example_store (Some (JStr ''TX1'')) =
      Some (transaction_data.extend example_data
              (transaction.fields (TimeValue 1700000000000) None))"
    by (simp add: getTransaction_parsed_string example_store_TX1)
  have proc: "webhook_process newDate now example_store example_payload_bad_date =
      Inr (\<lparr>http_status = 200,
            http_body = JObj [(''success'', JBool True), (''status'', JStr ''paid'')]\<rparr>,
           updateTransactionStatus example_store (Some (JStr ''TX1'')) ''paid''
             (Some InvalidDate))"
    unfolding webhook_process_known [where store = example_store
        and tid = "Some (JStr ''TX1'')",
        OF example_payload_bad_date_getp(1) example_payload_bad_date_getp(3)
           example_payload_bad_date_getp(2) found]
    by (simp add: mapTrexPayStatus_examples pa)
  have "webhook_POST hmac stringify (example_parse example_payload_bad_date) newDate now None
           example_store None None rawBody =
     (case webhook_process newDate now example_store example_payload_bad_date of
        Inl e \<Rightarrow> (\<lparr>http_status = 500,
                    http_body = JObj [(''error'', JStr ''Internal server error'')]\<rparr>,
                  example_store)
      | Inr r \<Rightarrow> r)"
    by (rule webhook_POST_unverified [where payload = example_payload_bad_date
          and data = "Some (JObj [(''idTransaction'', JStr ''TX1''), (''status'', JStr ''paid''),
                      (''paid_at'', JStr ''not a date'')])"])
       (simp_all add: env_or_empty_def example_parse_def example_payload_bad_date_getp)
  then show ?thesis
    by (simp add: proc example_store_invalid_date_def)
qed

lemma status_GET_readable:
  assumes "tid \<noteq> []"
  shows "(store (Some (JStr tid)) = None \<longrightarrow>
           status_GET toISOString store (Some tid) =
             \<lparr>http_status = 200,
              http_body = JObj [(''success'', JBool True), (''transactionId'', JStr tid),
                                (''status'', JStr ''pending'')]\<rparr>)
       \<and> (\<forall>t. store (Some (JStr tid)) = Some t \<and> paidAt t \<noteq> Some InvalidDate \<longrightarrow>
           status_GET toISOString store (Some tid) =
             \<lparr>http_status = 200,
              http_body = JObj [(''success'', JBool True), (''transactionId'', JStr tid),
                                (''orderId'', JStr (orderId t)), (''status'', JStr (status t)),
                                (''paidAt'',
                                   case paidAt t of
                                     None \<Rightarrow> JNull
                                   | Some InvalidDate \<Rightarrow> JNull
                                   | Some (TimeValue ms) \<Rightarrow>
                                       if toISOString ms = [] then JNull
                                       else JStr (toISOString ms))]\<rparr>)"
  using assms
  by (auto simp add: status_GET_def getTransaction_def paidAt_iso_def js_or_lit_def
      split: option.splits js_date.splits)

text \<open>What a webhook does to the store.\<close>

lemma mapTrexPayStatus_canonical:
  "mapTrexPayStatus s \<in> {''pending'', ''paid'', ''cancelled'', ''expired''}"
  by (simp add: mapTrexPayStatus_def Let_def)

lemma webhook_process_store:
  assumes "webhook_process newDate now store payload = Inr (r, store')"
  shows "store' = store \<or>
    (\<exists>data raw tid pa t.
       getp (Some payload) ''data'' = Inr data
       \<and> getp data ''status'' = Inr (Some (JStr raw))
       \<and> webhook_transactionId data = Inr tid
       \<and> store tid = Some t
       \<and> webhook_paidAt newDate now data (mapTrexPayStatus raw) = Inr pa
       \<and> store' = updateTransactionStatus store tid (mapTrexPayStatus raw) pa)"
proof -
  obtain data where data: "getp (Some payload) ''data'' = Inr data"
    using assms by (auto simp add: webhook_process_def bind_exc_def split: sum.splits)
  obtain tid where tid: "webhook_transactionId data = Inr tid"
    using assms data by (auto simp add: webhook_process_def bind_exc_def split: sum.splits)
  obtain rawv where rawv: "getp data ''status'' = Inr rawv"
    using assms data tid by (auto simp add: webhook_process_def bind_exc_def split: sum.splits)
  obtain raw where raw: "rawv = Some (JStr raw)"
    using assms data tid rawv
    by (auto simp add: webhook_process_def bind_exc_def mapTrexPayStatus_js_def
        split: sum.splits option.splits json.splits)
  show ?thesis
  proof (cases "getTransaction_parsed store tid")
    case None
    then have "store' = store"
      using assms data tid rawv raw
      by (simp add: webhook_process_def bind_exc_def mapTrexPayStatus_js_def)
    then show ?thesis by simp
  next
    case (Some t)
    note known = webhook_process_known [where store = store and tid = tid
        and newDate = newDate and now = now, OF data tid rawv [unfolded raw] Some]
    obtain pa where pa: "webhook_paidAt newDate now data (mapTrexPayStatus raw) = Inr pa"
      using assms unfolding known by (auto split: sum.splits)
    have "store' = updateTransactionStatus store tid (mapTrexPayStatus raw) pa"
      using assms unfolding known pa by simp
    then show ?thesis
      using data tid rawv raw pa getTransaction_parsed_Some [OF Some] by blast
  qed
qed

lemma webhook_POST_cases:
  "snd (webhook_POST hmac stringify parse newDate now env_secret store xs sg rawBody) = store \<or>
   (\<exists>payload r. parse rawBody = Some payload \<and>
      webhook_process newDate now store payload =
       Inr (r, snd (webhook_POST hmac stringify parse newDate now env_secret store xs sg rawBody)))"
  by (auto simp add: webhook_POST_def Let_def split: option.splits sum.splits)

lemma webhook_POST_store:
  "snd (webhook_POST hmac stringify parse newDate now env_secret store xs sg rawBody) = store \<or>
    (\<exists>payload data raw tid pa t.
       parse rawBody = Some payload
       \<and> getp (Some payload) ''data'' = Inr data
       \<and> getp data ''status'' = Inr (Some (JStr raw))
       \<and> webhook_transactionId data = Inr tid
       \<and> store tid = Some t
       \<and> webhook_paidAt newDate now data (mapTrexPayStatus raw) = Inr pa
       \<and> snd (webhook_POST hmac stringify parse newDate now env_secret store xs sg rawBody) =
           updateTransactionStatus store tid (mapTrexPayStatus raw) pa)"
  using webhook_POST_cases [of hmac stringify parse newDate now env_secret store xs sg rawBody]
    webhook_process_store [of newDate now store]
  by blast

text \<open>Processing an event whose transaction is not in the store.\<close>

lemma webhook_process_unknown:
  assumes "getp (Some payload) ''data'' = Inr data"
    and "webhook_transactionId data = Inr tidv"
    and "getTransaction_parsed store tidv = None"
  shows "webhook_process newDate now store payload =
     (case getp data ''status'' of
        Inr (Some (JStr raw)) \<Rightarrow> Inr (acknowledged, store)
      | _ \<Rightarrow> Inl TypeError)"
proof -
  obtain i where i: "getp data ''idTransaction'' = Inr i"
    using assms(2) by (auto simp add: webhook_transactionId_def bind_exc_def split: sum.splits)
  obtain sv where sv: "getp data ''status'' = Inr sv"
    using getp_Inr_any [OF i] by blast
  show ?thesis
    using assms sv
    by (auto simp add: webhook_process_def bind_exc_def mapTrexPayStatus_js_def
        split: option.splits json.splits)
qed

text \<open>When the computation of the \<open>paidAt\<close> argument throws.\<close>

lemma webhook_paidAt_throws_iff:
  "(\<exists>e. webhook_paidAt newDate now data st = Inl e) \<longleftrightarrow>
     st = ''paid'' \<and>
     ((\<exists>e. getp data ''paid_at'' = Inl e) \<or>
      (\<exists>j e. getp data ''paid_at'' = Inr (Some j) \<and> truthy (Some j) \<and> newDate j = Inl e))"
  by (auto simp add: webhook_paidAt_def bind_exc_def split: sum.splits option.splits)

text \<open>The example payloads that the handler cannot process.\<close>

lemma example_payload_no_status_process:
  "getp (Some example_payload_no_status) ''data'' =
     Inr (Some (JObj [(''idTransaction'', JStr ''TX1'')]))"
  "webhook_process newDate now store example_payload_no_status = Inl TypeError"
  by (simp_all add: example_payload_no_status_def webhook_process_def bind_exc_def
      webhook_transactionId_def mapTrexPayStatus_js_def)

lemma example_payload_object_date_getp:
  "getp (Some example_payload_object_date) ''data'' =
     Inr (Some (JObj [(''idTransaction'', JStr ''TX1''), (''status'', JStr ''paid''),
                      (''paid_at'', JObj [(''toString'', JNull)])]))"
  "getp (Some (JObj [(''idTransaction'', JStr ''TX1''), (''status'', JStr ''paid''),
                      (''paid_at'', JObj [(''toString'', JNull)])])) ''status'' =
     Inr (Some (JStr ''paid''))"
  "webhook_transactionId
     (Some (JObj [(''idTransaction'', JStr ''TX1''), (''status'', JStr ''paid''),
                  (''paid_at'', JObj [(''toString'', JNull)])])) = Inr (Some (JStr ''TX1''))"
  "webhook_paidAt example_newDate now
     (Some (JObj [(''idTransaction'', JStr ''TX1''), (''status'', JStr ''paid''),
                  (''paid_at'', JObj [(''toString'', JNull)])])) ''paid'' = Inl TypeError"
  by (simp_all add: example_payload_object_date_def webhook_transactionId_def bind_exc_def
      webhook_paidAt_def example_newDate_def)

lemma example_payload_object_date_process:
  "webhook_process example_newDate now example_store example_payload_object_date =
     Inl TypeError"
proof -
  have found: "getTransaction_parsed example_store (Some (JStr ''TX1'')) =
      Some (transaction_data.extend example_data
              (transaction.fields (TimeValue 1700000000000) None))"
    by (simp add: getTransaction_parsed_string example_store_TX1)
  show ?thesis
    unfolding webhook_process_known [where store = example_store
        and tid = "Some (JStr ''TX1'')",
        OF example_payload_object_date_getp(1) example_payload_object_date_getp(3)
           example_payload_object_date_getp(2) found]
    by (simp add: mapTrexPayStatus_examples example_payload_object_date_getp(4))
qed

text \<open>A transaction saved under a number is found by a webhook that names the number.\<close>

lemma webhook_POST_numeric_id:
  "webhook_POST hmac stringify (example_parse example_payload_numeric) newDate now None
     example_store_numeric None None rawBody =
   (\<lparr>http_status = 200,
     http_body = JObj [(''success'', JBool True), (''status'', JStr ''paid'')]\<rparr>,
    updateTransactionStatus example_store_numeric (Some (JNum 12345)) ''paid''
      (Some (TimeValue now)))"
proof -
  have d: "getp (Some example_payload_numeric) ''data'' =
      Inr (Some (JObj [(''idTransaction'', JNum 12345), (''status'', JStr ''paid'')]))"
    by (simp add: example_payload_numeric_def)
  have proc: "webhook_process newDate now example_store_numeric example_payload_numeric =
      Inr (\<lparr>http_status = 200,
            http_body = JObj [(''success'', JBool True), (''status'', JStr ''paid'')]\<rparr>,
           updateTransactionStatus example_store_numeric (Some (JNum 12345)) ''paid''
             (Some (TimeValue now)))"
    by (simp add: example_payload_numeric_def webhook_process_def bind_exc_def
        webhook_transactionId_def mapTrexPayStatus_js_def mapTrexPayStatus_examples
        getTransaction_parsed_def getTransaction_def example_store_numeric_def
        saveTransaction_def webhook_paidAt_def)
  have "webhook_POST hmac stringify (example_parse example_payload_numeric) newDate now None
           example_store_numeric None None rawBody =
     (case webhook_process newDate now example_store_numeric example_payload_numeric of
        Inl e \<Rightarrow> (\<lparr>http_status = 500,
                    http_body = JObj [(''error'', JStr ''Internal server error'')]\<rparr>,
                  example_store_numeric)
      | Inr r \<Rightarrow> r)"
    by (rule webhook_POST_unverified [where payload = example_payload_numeric
          and data = "Some (JObj [(''idTransaction'', JNum 12345), (''status'', JStr ''paid'')])"])
       (simp_all add: env_or_empty_def example_parse_def d)
  then show ?thesis
    by (simp add: proc)
qed

text \<open>Charge creation with credentials configured and a JSON object for an answer.\<close>

lemma or_chain_object:
  "or_chain (Some (JObj kvs)) [k1, k2, k3] =
     Inr (if truthy (map_of (rev kvs) k1) then map_of (rev kvs) k1
          else if truthy (map_of (rev kvs) k2) then map_of (rev kvs) k2
          else map_of (rev kvs) k3)"
  "or_chain (Some (JObj kvs)) [k1, k2] =
     Inr (if truthy (map_of (rev kvs) k1) then map_of (rev kvs) k1
          else map_of (rev kvs) k2)"
  by simp_all

lemma createTrexPayPix_result_ok:
  assumes "response_ok st"
  shows "createTrexPayPix_result st (JObj kvs) =
     Inr \<lparr>success = True,
          qrcode = (if truthy (map_of (rev kvs) ''qrcode'') then map_of (rev kvs) ''qrcode''
                    else if truthy (map_of (rev kvs) ''pix_code'') then map_of (rev kvs) ''pix_code''
                    else map_of (rev kvs) ''emv''),
          qrcode_base64 = (if truthy (map_of (rev kvs) ''qrcode_base64'')
                           then map_of (rev kvs) ''qrcode_base64''
                           else map_of (rev kvs) ''qr_code_base64''),
          transaction_id = (if truthy (map_of (rev kvs) ''transaction_id'')
                            then map_of (rev kvs) ''transaction_id''
                            else if truthy (map_of (rev kvs) ''id'') then map_of (rev kvs) ''id''
                            else map_of (rev kvs) ''idTransaction''),
          txid = (if truthy (map_of (rev kvs) ''txid'') then map_of (rev kvs) ''txid''
                  else map_of (rev kvs) ''tx_id''),
          expires_at = (if truthy (map_of (rev kvs) ''expires_at'')
                        then map_of (rev kvs) ''expires_at''
                        else map_of (rev kvs) ''expiration''),
          error = None\<rparr>"
  using assms
  unfolding createTrexPayPix_result_def Let_def or_chain_object bind_exc_def
  by simp

lemma createTrexPayPix_configured:
  assumes "env_or_empty env_token \<noteq> []" and "env_or_empty env_secret \<noteq> []"
    and "fetch (requestBody (env_or_empty env_token) (env_or_empty env_secret) request) =
           FetchResponse st (Inr j)"
  shows "createTrexPayPix fetch env_token env_secret request =
     (case createTrexPayPix_result st j of
        Inl e \<Rightarrow> failure (ErrorOf e)
      | Inr r \<Rightarrow> r,
      [requestBody (env_or_empty env_token) (env_or_empty env_secret) request])"
  using assms
  by (simp add: createTrexPayPix_def Let_def bind_exc_def split: sum.splits)

lemma labels_lower_case:
  "set ''paid'' \<subseteq> set lower_letters" "set ''approved'' \<subseteq> set lower_letters"
  "set ''completed'' \<subseteq> set lower_letters" "set ''cancelled'' \<subseteq> set lower_letters"
  "set ''canceled'' \<subseteq> set lower_letters" "set ''refused'' \<subseteq> set lower_letters"
  "set ''expired'' \<subseteq> set lower_letters"
  by (simp_all add: lower_letters_def)

section \<open>Status mapping\<close>

text \<open>
  C5. \<open>mapTrexPayStatus\<close> is total and case-insensitive: any casing of \<open>paid\<close>,
  \<open>approved\<close> or \<open>completed\<close> gives \<open>paid\<close>; any casing of \<open>cancelled\<close>, \<open>canceled\<close> or
  \<open>refused\<close> gives \<open>cancelled\<close>; any casing of \<open>expired\<close> gives \<open>expired\<close>; every other
  string gives \<open>pending\<close>, \<open>pending\<close> and \<open>waiting_payment\<close> among them; and the result
  is always one of the four canonical values.
\<close>

theorem mapTrexPayStatus_case_insensitive:
  "mapTrexPayStatus s =
     (if is_casing_of ''paid'' s \<or> is_casing_of ''approved'' s \<or> is_casing_of ''completed'' s
      then ''paid''
      else if is_casing_of ''cancelled'' s \<or> is_casing_of ''canceled'' s \<or>
              is_casing_of ''refused'' s
      then ''cancelled''
      else if is_casing_of ''expired'' s then ''expired''
      else ''pending'')
   \<and> mapTrexPayStatus s \<in> {''pending'', ''paid'', ''cancelled'', ''expired''}
   \<and> mapTrexPayStatus ''pending'' = ''pending''
   \<and> mapTrexPayStatus ''waiting_payment'' = ''pending''"
proof -
  have 1: "mapTrexPayStatus s =
     (if is_casing_of ''paid'' s \<or> is_casing_of ''approved'' s \<or> is_casing_of ''completed'' s
      then ''paid''
      else if is_casing_of ''cancelled'' s \<or> is_casing_of ''canceled'' s \<or>
              is_casing_of ''refused'' s
      then ''cancelled''
      else if is_casing_of ''expired'' s then ''expired''
      else ''pending'')"
    unfolding labels_lower_case [THEN is_casing_of_iff]
    by (simp add: mapTrexPayStatus_def Let_def)
  have 2: "mapTrexPayStatus s \<in> {''pending'', ''paid'', ''cancelled'', ''expired''}"
    by (simp add: mapTrexPayStatus_def Let_def)
  have 3: "mapTrexPayStatus ''pending'' = ''pending''"
    by (simp add: mapTrexPayStatus_def toLowerCase_def ascii_lower_cases)
  have 4: "mapTrexPayStatus ''waiting_payment'' = ''pending''"
    by (simp add: mapTrexPayStatus_def toLowerCase_def ascii_lower_cases)
  from 1 2 3 4 show ?thesis by blast
qed

section \<open>Webhook signature\<close>

text \<open>
  C3. \<open>verifyTrexPaySignature\<close> returns false when the signature is empty and when the
  secret is empty; in general it returns true exactly when both are non-empty and the
  signature is, byte for byte, \<open>sha256=\<close> followed by the hex HMAC-SHA256 of the
  serialised payload under the secret.
\<close>

theorem verifyTrexPaySignature_iff:
  "verifyTrexPaySignature hmac stringify payload [] secret = False
   \<and> verifyTrexPaySignature hmac stringify payload sig [] = False
   \<and> verifyTrexPaySignature hmac stringify payload sig secret =
       (sig \<noteq> [] \<and> secret \<noteq> [] \<and> sig = ''sha256='' @ hmac secret (stringify payload))"
  by (auto simp add: verifyTrexPaySignature_def timingSafeEqual_def Let_def)

section \<open>Charge creation\<close>

text \<open>
  C7. When the token or the secret is unset (or empty), \<open>createTrexPayPix\<close> returns a
  result with \<open>success = false\<close> and the error message of the source, and makes no
  outbound call.
\<close>

theorem createTrexPayPix_no_credentials:
  assumes "env_or_empty env_token = [] \<or> env_or_empty env_secret = []"
  shows "success (fst (createTrexPayPix fetch env_token env_secret request)) = False
    \<and> error (fst (createTrexPayPix fetch env_token env_secret request)) =
        Some (ErrorValue (JStr (''Credenciais TrexPay n'' @ [CHR 0xC3, CHR 0xA3] @
                                 ''o configuradas'')))
    \<and> snd (createTrexPayPix fetch env_token env_secret request) = []"
  using assms by (auto simp add: createTrexPayPix_def failure_def Let_def)

theorem createTrexPayPix_no_credentials_witness:
  "env_or_empty None = []
   \<and> success (fst (createTrexPayPix (example_fetch 200 (JObj [(''id'', JStr ''abc123'')]))
                     None (Some ''secret'') example_request)) = False
   \<and> snd (createTrexPayPix (example_fetch 200 (JObj [(''id'', JStr ''abc123'')]))
            None (Some ''secret'') example_request) = []"
  using createTrexPayPix_no_credentials
    [of None "Some ''secret''" "example_fetch 200 (JObj [(''id'', JStr ''abc123'')])"
        example_request]
  by (simp add: env_or_empty_def)

text \<open>
  C6, as the code has it. With both credentials configured, when the gateway answers the
  call with an HTTP 2xx status and a JSON object in which at least one of
  \<open>transaction_id\<close>, \<open>id\<close> and \<open>idTransaction\<close> has a truthy value (a non-empty string,
  a non-zero number, \<open>true\<close>, an object or an array), \<open>createTrexPayPix\<close> returns
  \<open>success = true\<close> and a transaction identifier that is the first truthy one of the
  three, in that order.
\<close>

theorem createTrexPayPix_success:
  assumes "env_or_empty env_token \<noteq> []" and "env_or_empty env_secret \<noteq> []"
    and "fetch (requestBody (env_or_empty env_token) (env_or_empty env_secret) request) =
           FetchResponse st (Inr (JObj kvs))"
    and "response_ok st"
    and "truthy (map_of (rev kvs) ''transaction_id'') \<or> truthy (map_of (rev kvs) ''id'') \<or>
         truthy (map_of (rev kvs) ''idTransaction'')"
  shows "success (fst (createTrexPayPix fetch env_token env_secret request)) = True
    \<and> truthy (transaction_id (fst (createTrexPayPix fetch env_token env_secret request)))
    \<and> transaction_id (fst (createTrexPayPix fetch env_token env_secret request)) =
        (if truthy (map_of (rev kvs) ''transaction_id'') then map_of (rev kvs) ''transaction_id''
         else if truthy (map_of (rev kvs) ''id'') then map_of (rev kvs) ''id''
         else map_of (rev kvs) ''idTransaction'')"
  using assms(5)
  unfolding createTrexPayPix_configured [where fetch = fetch, OF assms(1,2,3)]
    createTrexPayPix_result_ok [OF assms(4)]
  by auto

theorem createTrexPayPix_success_witness:
  "env_or_empty (Some ''token'') \<noteq> [] \<and> env_or_empty (Some ''secret'') \<noteq> []
   \<and> response_ok 200
   \<and> truthy (map_of (rev [(''qrcode'', JStr ''000201''), (''id'', JStr ''abc123'')]) ''id'')
   \<and> success (fst (createTrexPayPix
         (example_fetch 200 (JObj [(''qrcode'', JStr ''000201''), (''id'', JStr ''abc123'')]))
         (Some ''token'') (Some ''secret'') example_request)) = True
   \<and> transaction_id (fst (createTrexPayPix
         (example_fetch 200 (JObj [(''qrcode'', JStr ''000201''), (''id'', JStr ''abc123'')]))
         (Some ''token'') (Some ''secret'') example_request)) = Some (JStr ''abc123'')"
proof -
  have h1: "env_or_empty (Some ''token'') \<noteq> []" and h2: "env_or_empty (Some ''secret'') \<noteq> []"
    by (simp_all add: env_or_empty_def)
  have h3: "example_fetch 200 (JObj [(''qrcode'', JStr ''000201''), (''id'', JStr ''abc123'')])
      (requestBody (env_or_empty (Some ''token'')) (env_or_empty (Some ''secret''))
         example_request) =
      FetchResponse 200 (Inr (JObj [(''qrcode'', JStr ''000201''), (''id'', JStr ''abc123'')]))"
    by (simp add: example_fetch_def)
  have h4: "response_ok 200"
    by (simp add: response_ok_def)
  have h5: "truthy (map_of (rev [(''qrcode'', JStr ''000201''), (''id'', JStr ''abc123'')])
                ''transaction_id'')
      \<or> truthy (map_of (rev [(''qrcode'', JStr ''000201''), (''id'', JStr ''abc123'')]) ''id'')
      \<or> truthy (map_of (rev [(''qrcode'', JStr ''000201''), (''id'', JStr ''abc123'')])
                ''idTransaction'')"
    by simp
  show ?thesis
    using createTrexPayPix_success
      [where fetch = "example_fetch 200
           (JObj [(''qrcode'', JStr ''000201''), (''id'', JStr ''abc123'')])",
        OF h1 h2 h3 h4 h5] h1 h2 h4
    by simp
qed

text \<open>
  C6 as stated fails: a 2xx answer that has the member \<open>transaction_id\<close> with the empty
  string for a value contains a recognized field name, and the result has
  \<open>success = true\<close> and no transaction identifier.
\<close>

theorem createTrexPayPix_success_counterexample:
  "map_of [(''transaction_id'', JStr [])] ''transaction_id'' \<noteq> None
   \<and> response_ok 200
   \<and> success (fst (createTrexPayPix (example_fetch 200 (JObj [(''transaction_id'', JStr [])]))
         (Some ''token'') (Some ''secret'') example_request)) = True
   \<and> transaction_id (fst (createTrexPayPix
         (example_fetch 200 (JObj [(''transaction_id'', JStr [])]))
         (Some ''token'') (Some ''secret'') example_request)) = None"
proof -
  have h1: "env_or_empty (Some ''token'') \<noteq> []" and h2: "env_or_empty (Some ''secret'') \<noteq> []"
    by (simp_all add: env_or_empty_def)
  have h3: "example_fetch 200 (JObj [(''transaction_id'', JStr [])])
      (requestBody (env_or_empty (Some ''token'')) (env_or_empty (Some ''secret''))
         example_request) =
      FetchResponse 200 (Inr (JObj [(''transaction_id'', JStr [])]))"
    by (simp add: example_fetch_def)
  have h4: "response_ok 200"
    by (simp add: response_ok_def)
  show ?thesis
    unfolding createTrexPayPix_configured
        [where fetch = "example_fetch 200 (JObj [(''transaction_id'', JStr [])])",
          OF h1 h2 h3]
      createTrexPayPix_result_ok [OF h4]
    using h4 by simp
qed

section \<open>Transaction store\<close>

text \<open>
  C8. Calling \<open>updateTransactionStatus\<close> twice with the same id, status and \<open>paidAt\<close>
  argument leaves the store, and so the stored record, as one call leaves it. This holds
  for every status, the terminal ones among them, and for every id, the stored ones
  among them.
\<close>

theorem updateTransactionStatus_idempotent:
  "updateTransactionStatus (updateTransactionStatus store tid st p) tid st p =
     updateTransactionStatus store tid st p"
  by (cases "store tid"; cases p; simp add: updateTransactionStatus_def)

text \<open>
  C9. For an id that is not in the store, \<open>updateTransactionStatus\<close> leaves the whole
  store as it is. For an id that is in the store, the record's status becomes the given
  one, its \<open>paidAt\<close> becomes the argument when one is supplied and stays otherwise, every
  other field of the record stays, every other record stays, and no record is created.
\<close>

theorem updateTransactionStatus_frame:
  "(store tid = None \<longrightarrow> updateTransactionStatus store tid st p = store)
   \<and> (\<forall>t. store tid = Some t \<longrightarrow>
        (\<exists>t'. updateTransactionStatus store tid st p tid = Some t'
           \<and> status t' = st
           \<and> paidAt t' = (case p of None \<Rightarrow> paidAt t | Some d \<Rightarrow> Some d)
           \<and> orderId t' = orderId t \<and> amount t' = amount t \<and> customer t' = customer t
           \<and> trackingParams t' = trackingParams t \<and> products t' = products t
           \<and> createdAt t' = createdAt t))
   \<and> (\<forall>k. k \<noteq> tid \<longrightarrow> updateTransactionStatus store tid st p k = store k)
   \<and> dom (updateTransactionStatus store tid st p) = dom store"
  by (cases "store tid"; cases p; auto simp add: updateTransactionStatus_def)

theorem updateTransactionStatus_frame_witness:
  "example_store (Some (JStr ''TX2'')) = None
   \<and> updateTransactionStatus example_store (Some (JStr ''TX2'')) ''paid'' None = example_store
   \<and> map_option status (example_store (Some (JStr ''TX1''))) = Some ''pending''
   \<and> map_option status
        (updateTransactionStatus example_store (Some (JStr ''TX1'')) ''paid''
           (Some (TimeValue 5)) (Some (JStr ''TX1'')))
       = Some ''paid''
   \<and> map_option paidAt
        (updateTransactionStatus example_store (Some (JStr ''TX1'')) ''paid''
           (Some (TimeValue 5)) (Some (JStr ''TX1'')))
       = Some (Some (TimeValue 5))
   \<and> map_option orderId
        (updateTransactionStatus example_store (Some (JStr ''TX1'')) ''paid''
           (Some (TimeValue 5)) (Some (JStr ''TX1'')))
       = Some ''PED-1''
   \<and> updateTransactionStatus example_store (Some (JStr ''TX1'')) ''paid''
        (Some (TimeValue 5)) (Some (JStr ''TX2''))
       = example_store (Some (JStr ''TX2''))"
proof -
  have a: "example_store (Some (JStr ''TX2'')) = None"
    by (simp add: example_store_apply)
  note b = example_store_TX1
  have c: "Some (JStr ''TX2'') \<noteq> Some (JStr ''TX1'')" by simp
  note f2 = updateTransactionStatus_frame
              [of example_store "Some (JStr ''TX2'')" "''paid''" None]
  note f1 = updateTransactionStatus_frame
              [of example_store "Some (JStr ''TX1'')" "''paid''" "Some (TimeValue 5)"]
  have 1: "updateTransactionStatus example_store (Some (JStr ''TX2'')) ''paid'' None =
      example_store"
    using f2 [THEN conjunct1] a by simp
  obtain t' where t': "updateTransactionStatus example_store (Some (JStr ''TX1'')) ''paid''
        (Some (TimeValue 5)) (Some (JStr ''TX1'')) = Some t'"
      "status t' = ''paid''" "paidAt t' = Some (TimeValue 5)"
      "orderId t' = orderId (transaction_data.extend example_data
                   (transaction.fields (TimeValue 1700000000000) None))"
    using f1 [THEN conjunct2, THEN conjunct1, rule_format, OF b] by auto
  have 3: "updateTransactionStatus example_store (Some (JStr ''TX1'')) ''paid''
        (Some (TimeValue 5)) (Some (JStr ''TX2''))
       = example_store (Some (JStr ''TX2''))"
    using f1 [THEN conjunct2, THEN conjunct2, THEN conjunct1, rule_format, OF c] .
  show ?thesis
    using a 1 t' 3 by (simp add: b example_data_fields)
qed

section \<open>Webhook receiver\<close>

text \<open>
  C2, as the code has it. When the signature header is empty or \<open>TREXPAY_SECRET\<close> is
  unset, the webhook handler does not verify the signature (its result is the same
  whatever the HMAC and the serialisation are). It still processes an event for a stored
  transaction, provided it can read the event: the body parses, it has a \<open>data\<close> whose
  status is a string, and computing the \<open>paidAt\<close> argument does not throw (it can throw
  only when the mapped status is \<open>paid\<close> and the \<open>Date\<close> constructor throws on a truthy
  \<open>paid_at\<close>). Then the handler maps the raw status, replaces the status of the record
  stored under the event's transaction id by the mapped status, sets its \<open>paidAt\<close> exactly
  when the mapped status is \<open>paid\<close>, leaves the rest of the record as it was, and answers
  HTTP 200 with \<open>{success: true, status}\<close>.
\<close>

theorem webhook_POST_skips_verification:
  assumes "header_signature xs sg = [] \<or> env_or_empty env_secret = []"
    and "parse rawBody = Some payload"
    and "getp (Some payload) ''data'' = Inr data"
    and "webhook_transactionId data = Inr tid"
    and "getp data ''status'' = Inr (Some (JStr raw))"
    and "getTransaction_parsed store tid = Some t"
    and "webhook_paidAt newDate now data (mapTrexPayStatus raw) = Inr pa"
  shows "webhook_POST hmac stringify parse newDate now env_secret store xs sg rawBody =
        (\<lparr>http_status = 200,
          http_body = JObj [(''success'', JBool True),
                            (''status'', JStr (mapTrexPayStatus raw))]\<rparr>,
         updateTransactionStatus store tid (mapTrexPayStatus raw) pa)
      \<and> (pa = None \<longleftrightarrow> mapTrexPayStatus raw \<noteq> ''paid'')
      \<and> snd (webhook_POST hmac stringify parse newDate now env_secret store xs sg rawBody) tid
          = Some (t\<lparr>status := mapTrexPayStatus raw,
                     paidAt := (case pa of None \<Rightarrow> paidAt t | Some d \<Rightarrow> Some d)\<rparr>)
      \<and> webhook_POST hmac' stringify' parse newDate now env_secret store xs sg rawBody =
          webhook_POST hmac stringify parse newDate now env_secret store xs sg rawBody"
proof -
  have proc: "webhook_process newDate now store payload =
      Inr (\<lparr>http_status = 200,
            http_body = JObj [(''success'', JBool True),
                              (''status'', JStr (mapTrexPayStatus raw))]\<rparr>,
           updateTransactionStatus store tid (mapTrexPayStatus raw) pa)"
    unfolding webhook_process_known [where store = store and tid = tid, OF assms(3,4,5,6)]
    by (simp add: assms(7))
  have none: "pa = None \<longleftrightarrow> mapTrexPayStatus raw \<noteq> ''paid''"
    by (rule webhook_paidAt_None_iff [OF assms(7)])
  have post: "webhook_POST h s parse newDate now env_secret store xs sg rawBody =
        (\<lparr>http_status = 200,
          http_body = JObj [(''success'', JBool True),
                            (''status'', JStr (mapTrexPayStatus raw))]\<rparr>,
         updateTransactionStatus store tid (mapTrexPayStatus raw) pa)" for h s
    using webhook_POST_unverified [where parse = parse and rawBody = rawBody, OF assms(1,2,3)]
      proc by simp
  have st: "updateTransactionStatus store tid (mapTrexPayStatus raw) pa tid =
      Some (t\<lparr>status := mapTrexPayStatus raw,
               paidAt := (case pa of None \<Rightarrow> paidAt t | Some d \<Rightarrow> Some d)\<rparr>)"
    unfolding updateTransactionStatus_Some
      [where store = store and tid = tid, OF getTransaction_parsed_Some [OF assms(6)]]
    by simp
  show ?thesis
    by (simp add: post none st)
qed

theorem webhook_POST_skips_verification_witness:
  "(header_signature (Some ''sha256=abc'') None = [] \<or> env_or_empty None = [])
   \<and> example_store (Some (JStr ''TX1'')) \<noteq> None
   \<and> map_option status (example_store (Some (JStr ''TX1''))) = Some ''pending''
   \<and> fst (webhook_POST example_hmac example_stringify
            (example_parse (example_payload ''TX1'' ''approved'')) example_newDate
            1700000060000 None example_store (Some ''sha256=abc'') None []) =
        \<lparr>http_status = 200,
         http_body = JObj [(''success'', JBool True), (''status'', JStr ''paid'')]\<rparr>
   \<and> map_option status
        (snd (webhook_POST example_hmac example_stringify
               (example_parse (example_payload ''TX1'' ''approved'')) example_newDate
               1700000060000 None example_store (Some ''sha256=abc'') None [])
           (Some (JStr ''TX1'')))
       = Some ''paid''
   \<and> map_option paidAt
        (snd (webhook_POST example_hmac example_stringify
               (example_parse (example_payload ''TX1'' ''approved'')) example_newDate
               1700000060000 None example_store (Some ''sha256=abc'') None [])
           (Some (JStr ''TX1'')))
       = Some (Some (TimeValue 1700000060000))"
proof -
  have h1: "header_signature (Some ''sha256=abc'') None = [] \<or> env_or_empty None = []"
    by (simp add: env_or_empty_def)
  have h2: "example_parse (example_payload ''TX1'' ''approved'') [] =
      Some (example_payload ''TX1'' ''approved'')"
    by (simp add: example_parse_def)
  have h4: "webhook_transactionId
      (Some (JObj [(''idTransaction'', JStr ''TX1''), (''status'', JStr ''approved'')])) =
      Inr (Some (JStr ''TX1''))"
    by (simp add: example_payload_transactionId)
  have h6: "getTransaction_parsed example_store (Some (JStr ''TX1'')) =
      Some (transaction_data.extend example_data
              (transaction.fields (TimeValue 1700000000000) None))"
    by (simp add: getTransaction_parsed_string example_store_TX1)
  have h7: "webhook_paidAt example_newDate 1700000060000
      (Some (JObj [(''idTransaction'', JStr ''TX1''), (''status'', JStr ''approved'')]))
      (mapTrexPayStatus ''approved'') = Inr (Some (TimeValue 1700000060000))"
    by (simp add: example_payload_paidAt mapTrexPayStatus_examples)
  note inst = webhook_POST_skips_verification
      [where parse = "example_parse (example_payload ''TX1'' ''approved'')" and rawBody = "[]"
         and store = example_store and tid = "Some (JStr ''TX1'')" and hmac = example_hmac
         and stringify = example_stringify and newDate = example_newDate
         and now = 1700000060000 and hmac' = example_hmac and stringify' = example_stringify,
       OF h1 h2 example_payload_getp(1) h4 example_payload_getp(2) h6 h7]
  have r: "webhook_POST example_hmac example_stringify
        (example_parse (example_payload ''TX1'' ''approved'')) example_newDate
        1700000060000 None example_store (Some ''sha256=abc'') None [] =
        (\<lparr>http_status = 200,
          http_body = JObj [(''success'', JBool True),
                            (''status'', JStr (mapTrexPayStatus ''approved''))]\<rparr>,
         updateTransactionStatus example_store (Some (JStr ''TX1''))
           (mapTrexPayStatus ''approved'') (Some (TimeValue 1700000060000)))"
    by (rule inst [THEN conjunct1])
  have s: "snd (webhook_POST example_hmac example_stringify
             (example_parse (example_payload ''TX1'' ''approved'')) example_newDate
             1700000060000 None example_store (Some ''sha256=abc'') None [])
           (Some (JStr ''TX1''))
          = Some ((transaction_data.extend example_data
                    (transaction.fields (TimeValue 1700000000000) None))
                  \<lparr>status := mapTrexPayStatus ''approved'',
                    paidAt := Some (TimeValue 1700000060000)\<rparr>)"
    using inst [THEN conjunct2, THEN conjunct2, THEN conjunct1] by simp
  show ?thesis
    unfolding s
    by (simp add: h1 r example_store_TX1 example_data_fields mapTrexPayStatus_examples)
qed

text \<open>
  C2 as stated fails: an unsigned request for the stored transaction \<open>TX1\<close> whose \<open>data\<close>
  has no status, and one that reports \<open>paid\<close> with a \<open>paid_at\<close> on which the \<open>Date\<close>
  constructor throws, are both answered with HTTP 500, and the record is not changed.
\<close>

theorem webhook_POST_skips_verification_counterexample:
  "header_signature None None = []
   \<and> example_store (Some (JStr ''TX1'')) \<noteq> None
   \<and> webhook_POST example_hmac example_stringify (example_parse example_payload_no_status)
        example_newDate 1700000060000 None example_store None None [] =
       (\<lparr>http_status = 500, http_body = JObj [(''error'', JStr ''Internal server error'')]\<rparr>,
        example_store)
   \<and> webhook_POST example_hmac example_stringify (example_parse example_payload_object_date)
        example_newDate 1700000060000 None example_store None None [] =
       (\<lparr>http_status = 500, http_body = JObj [(''error'', JStr ''Internal server error'')]\<rparr>,
        example_store)"
proof -
  have h: "header_signature None None = []"
    by (simp add: header_signature_def str_or_empty_def)
  have p1: "example_parse example_payload_no_status [] = Some example_payload_no_status"
    and p2: "example_parse example_payload_object_date [] = Some example_payload_object_date"
    by (simp_all add: example_parse_def)
  have 1: "webhook_POST example_hmac example_stringify (example_parse example_payload_no_status)
        example_newDate 1700000060000 None example_store None None [] =
       (\<lparr>http_status = 500, http_body = JObj [(''error'', JStr ''Internal server error'')]\<rparr>,
        example_store)"
    unfolding webhook_POST_unverified [where payload = example_payload_no_status
        and parse = "example_parse example_payload_no_status" and rawBody = "[]"
        and xs = None and sg = None,
        OF disjI1 [OF h] p1 example_payload_no_status_process(1)]
    by (simp add: example_payload_no_status_process(2))
  have 2: "webhook_POST example_hmac example_stringify
        (example_parse example_payload_object_date)
        example_newDate 1700000060000 None example_store None None [] =
       (\<lparr>http_status = 500, http_body = JObj [(''error'', JStr ''Internal server error'')]\<rparr>,
        example_store)"
    unfolding webhook_POST_unverified [where payload = example_payload_object_date
        and parse = "example_parse example_payload_object_date" and rawBody = "[]"
        and xs = None and sg = None,
        OF disjI1 [OF h] p2 example_payload_object_date_getp(1)]
    by (simp add: example_payload_object_date_process)
  show ?thesis
    using h 1 2 by (simp add: example_store_TX1)
qed

text \<open>
  C4, as the code has it. For a webhook request whose body parses, whose \<open>data\<close> can be
  read and whose transaction id is not in the store, the store is left as it is,
  whatever the answer. When moreover the request passes the signature check (no
  signature header, no secret configured, or a valid signature) and \<open>data.status\<close> is a
  string, the answer is HTTP 200 with
  \<open>{success: true, message: "Transaction not found but acknowledged"}\<close>.
\<close>

theorem webhook_POST_unknown_transaction:
  assumes "parse rawBody = Some payload"
    and "getp (Some payload) ''data'' = Inr data"
    and "webhook_transactionId data = Inr tidv"
    and "getTransaction_parsed store tidv = None"
  shows "snd (webhook_POST hmac stringify parse newDate now env_secret store xs sg rawBody) = store
    \<and> ((header_signature xs sg = [] \<or> env_or_empty env_secret = [] \<or>
          verifyTrexPaySignature hmac stringify payload (header_signature xs sg)
            (env_or_empty env_secret))
        \<and> (\<exists>raw. getp data ''status'' = Inr (Some (JStr raw)))
        \<longrightarrow> webhook_POST hmac stringify parse newDate now env_secret store xs sg rawBody =
              (acknowledged, store))"
proof -
  obtain ev where ev: "getp (Some payload) ''event'' = Inr ev"
    using getp_Inr_any [OF assms(2)] by blast
  note proc = webhook_process_unknown [where store = store and newDate = newDate and now = now,
      OF assms(2,3,4)]
  have 1: "snd (webhook_POST hmac stringify parse newDate now env_secret store xs sg rawBody) = store"
    using assms(1) ev proc
    by (auto simp add: webhook_POST_def Let_def split: sum.splits option.splits json.splits)
  have 2: "webhook_POST hmac stringify parse newDate now env_secret store xs sg rawBody =
              (acknowledged, store)"
    if "header_signature xs sg = [] \<or> env_or_empty env_secret = [] \<or>
          verifyTrexPaySignature hmac stringify payload (header_signature xs sg)
            (env_or_empty env_secret)"
      and "getp data ''status'' = Inr (Some (JStr raw))" for raw
    using assms(1) ev proc that
    by (auto simp add: webhook_POST_def Let_def)
  from 1 2 show ?thesis by blast
qed

theorem webhook_POST_unknown_transaction_witness:
  "example_parse (example_payload ''TX404'' ''paid'') [] = Some (example_payload ''TX404'' ''paid'')
   \<and> example_store (Some (JStr ''TX404'')) = None
   \<and> header_signature None None = []
   \<and> webhook_POST example_hmac example_stringify
        (example_parse (example_payload ''TX404'' ''paid'')) example_newDate 1700000060000
        (Some ''secret'') example_store None None [] = (acknowledged, example_store)"
proof -
  have h1: "example_parse (example_payload ''TX404'' ''paid'') [] =
      Some (example_payload ''TX404'' ''paid'')"
    by (simp add: example_parse_def)
  have h3: "webhook_transactionId
      (Some (JObj [(''idTransaction'', JStr ''TX404''), (''status'', JStr ''paid'')])) =
      Inr (Some (JStr ''TX404''))"
    by (simp add: example_payload_transactionId)
  have h0: "example_store (Some (JStr ''TX404'')) = None"
    by (simp add: example_store_apply)
  have h4: "getTransaction_parsed example_store (Some (JStr ''TX404'')) = None"
    by (simp add: getTransaction_parsed_string h0)
  have h5: "header_signature None None = []"
    by (simp add: header_signature_def str_or_empty_def)
  have h6: "\<exists>raw. getp (Some (JObj [(''idTransaction'', JStr ''TX404''), (''status'', JStr ''paid'')]))
      ''status'' = Inr (Some (JStr raw))"
    by simp
  have "webhook_POST example_hmac example_stringify
        (example_parse (example_payload ''TX404'' ''paid'')) example_newDate 1700000060000
        (Some ''secret'') example_store None None [] = (acknowledged, example_store)"
    using webhook_POST_unknown_transaction
      [where parse = "example_parse (example_payload ''TX404'' ''paid'')" and rawBody = "[]"
         and store = example_store and hmac = example_hmac and stringify = example_stringify
         and newDate = example_newDate and now = 1700000060000 and env_secret = "Some ''secret''"
         and xs = None and sg = None,
       OF h1 example_payload_getp(1) h3 h4, THEN conjunct2] h5 h6
    by blast
  then show ?thesis
    using h1 h0 h5 by simp
qed

text \<open>
  C4 as stated fails: with a secret configured, a request for an unknown transaction
  whose signature header does not match is answered with HTTP 401.
\<close>

theorem webhook_POST_unknown_transaction_counterexample:
  "example_parse (example_payload ''TX404'' ''paid'') [] = Some (example_payload ''TX404'' ''paid'')
   \<and> example_store (Some (JStr ''TX404'')) = None
   \<and> webhook_POST example_hmac example_stringify
        (example_parse (example_payload ''TX404'' ''paid'')) example_newDate 1700000060000
        (Some ''secret'') example_store (Some ''x'') None [] =
       (\<lparr>http_status = 401, http_body = JObj [(''error'', JStr ''Invalid signature'')]\<rparr>,
        example_store)"
proof -
  have v: "\<not> verifyTrexPaySignature example_hmac example_stringify
      (example_payload ''TX404'' ''paid'') ''x'' ''secret''"
    by (simp add: verifyTrexPaySignature_def timingSafeEqual_def example_hmac_def)
  have h: "header_signature (Some ''x'') None = ''x''"
    by (simp add: header_signature_def str_or_empty_def)
  have e: "getp (Some (example_payload ''TX404'' ''paid'')) ''event'' = Inr (Some (JStr ''payment''))"
    by (simp add: example_payload_def)
  have "webhook_POST example_hmac example_stringify
        (example_parse (example_payload ''TX404'' ''paid'')) example_newDate 1700000060000
        (Some ''secret'') example_store (Some ''x'') None [] =
       (\<lparr>http_status = 401, http_body = JObj [(''error'', JStr ''Invalid signature'')]\<rparr>,
        example_store)"
    using v by (simp add: webhook_POST_def Let_def h e example_parse_def env_or_empty_def)
  then show ?thesis
    by (simp add: example_parse_def example_store_apply)
qed

section \<open>Status query\<close>

text \<open>
  C10 says that a status query for a stored transaction answers with the record's
  status and its paid timestamp and reports success. The store can hold a record whose
  \<open>paidAt\<close> is the Invalid Date (\<open>webhook_stores_invalid_date\<close>); for such a record
  \<open>toISOString\<close> throws, the handler's \<open>catch\<close> takes over and the answer is HTTP 500
  with an error body instead.
\<close>

theorem status_GET_invalid_date:
  "example_store_invalid_date (Some (JStr ''TX1'')) \<noteq> None
   \<and> status_GET toISOString example_store_invalid_date (Some ''TX1'') =
       \<lparr>http_status = 500,
        http_body = JObj [(''error'', JStr ''Erro interno ao consultar status'')]\<rparr>"
  by (simp add: example_store_invalid_date_TX1 status_GET_def getTransaction_def paidAt_iso_def)

section \<open>Status transitions\<close>

text \<open>
  C1, as the code has it. No operation looks at the status a record has before it writes
  the new one. \<open>updateTransactionStatus\<close> on a stored id replaces the record's status by
  the one it is given (and its \<open>paidAt\<close> by the argument, when there is one) and leaves
  the rest of the record and of the store as it was. \<open>saveTransaction\<close> stores the status
  of its data. A webhook either leaves the store as it is, or it does to the record stored
  under the transaction id of its payload what \<open>updateTransactionStatus\<close> does: the new
  status is \<open>mapTrexPayStatus\<close> of the payload's \<open>data.status\<close>, one of \<open>pending\<close>,
  \<open>paid\<close>, \<open>cancelled\<close> and \<open>expired\<close>, and \<open>paidAt\<close> is set exactly when that status is
  \<open>paid\<close>. So \<open>pending\<close> can become any terminal status, and nothing keeps a terminal
  status from being replaced.
\<close>

theorem status_overwritten:
  "(\<forall>t. store tid = Some t \<longrightarrow>
      updateTransactionStatus store tid st p =
        store(tid \<mapsto> t\<lparr>status := st,
                         paidAt := (case p of None \<Rightarrow> paidAt t | Some d \<Rightarrow> Some d)\<rparr>))
   \<and> map_option status (saveTransaction clock store tid data tid) = Some (status data)
   \<and> (snd (webhook_POST hmac stringify parse newDate now env_secret store xs sg rawBody) = store
       \<or> (\<exists>payload data' raw tid' pa t.
             parse rawBody = Some payload
             \<and> getp (Some payload) ''data'' = Inr data'
             \<and> getp data' ''status'' = Inr (Some (JStr raw))
             \<and> webhook_transactionId data' = Inr tid'
             \<and> store tid' = Some t
             \<and> (pa = None \<longleftrightarrow> mapTrexPayStatus raw \<noteq> ''paid'')
             \<and> mapTrexPayStatus raw \<in> {''pending'', ''paid'', ''cancelled'', ''expired''}
             \<and> snd (webhook_POST hmac stringify parse newDate now env_secret store xs sg rawBody)
                 = store(tid' \<mapsto> t\<lparr>status := mapTrexPayStatus raw,
                                     paidAt := (case pa of None \<Rightarrow> paidAt t
                                                | Some d \<Rightarrow> Some d)\<rparr>)))"
proof -
  let ?store' = "snd (webhook_POST hmac stringify parse newDate now env_secret store xs sg rawBody)"
  have 1: "\<forall>t. store tid = Some t \<longrightarrow>
      updateTransactionStatus store tid st p =
        store(tid \<mapsto> t\<lparr>status := st,
                         paidAt := (case p of None \<Rightarrow> paidAt t | Some d \<Rightarrow> Some d)\<rparr>)"
    by (simp add: updateTransactionStatus_Some)
  have 2: "map_option status (saveTransaction clock store tid data tid) = Some (status data)"
    by (simp add: saveTransaction_def transaction_data.extend_def)
  have 3: "?store' = store
       \<or> (\<exists>payload data' raw tid' pa t.
             parse rawBody = Some payload
             \<and> getp (Some payload) ''data'' = Inr data'
             \<and> getp data' ''status'' = Inr (Some (JStr raw))
             \<and> webhook_transactionId data' = Inr tid'
             \<and> store tid' = Some t
             \<and> (pa = None \<longleftrightarrow> mapTrexPayStatus raw \<noteq> ''paid'')
             \<and> mapTrexPayStatus raw \<in> {''pending'', ''paid'', ''cancelled'', ''expired''}
             \<and> ?store' = store(tid' \<mapsto> t\<lparr>status := mapTrexPayStatus raw,
                                     paidAt := (case pa of None \<Rightarrow> paidAt t
                                                | Some d \<Rightarrow> Some d)\<rparr>))"
  proof -
    consider "?store' = store"
      | payload data' raw tid' pa t where "parse rawBody = Some payload"
          "getp (Some payload) ''data'' = Inr data'"
          "getp data' ''status'' = Inr (Some (JStr raw))"
          "webhook_transactionId data' = Inr tid'"
          "store tid' = Some t"
          "webhook_paidAt newDate now data' (mapTrexPayStatus raw) = Inr pa"
          "?store' = updateTransactionStatus store tid' (mapTrexPayStatus raw) pa"
      using webhook_POST_store [of hmac stringify parse newDate now env_secret store xs sg rawBody]
      by blast
    then show ?thesis
    proof cases
      case 1
      then show ?thesis by simp
    next
      case 2
      have a: "pa = None \<longleftrightarrow> mapTrexPayStatus raw \<noteq> ''paid''"
        by (rule webhook_paidAt_None_iff [OF 2(6)])
      have b: "?store' = store(tid' \<mapsto> t\<lparr>status := mapTrexPayStatus raw,
                                     paidAt := (case pa of None \<Rightarrow> paidAt t
                                                | Some d \<Rightarrow> Some d)\<rparr>)"
        unfolding 2(7)
        by (rule updateTransactionStatus_Some [where store = store and tid = tid', OF 2(5)])
      show ?thesis
        using 2(1,2,3,4,5) a b mapTrexPayStatus_canonical [of raw] by blast
    qed
  qed
  from 1 2 3 show ?thesis by blast
qed

theorem status_overwritten_witness:
  "example_store_paid (Some (JStr ''TX1'')) \<noteq> None
   \<and> map_option status
        (updateTransactionStatus example_store_paid (Some (JStr ''TX1'')) ''expired'' None
           (Some (JStr ''TX1'')))
       = Some ''expired''"
  using status_overwritten [where store = example_store_paid and tid = "Some (JStr ''TX1'')"
      and st = "''expired''" and p = None, THEN conjunct1, rule_format,
      OF example_store_paid_TX1]
  by (simp add: example_store_paid_TX1)

text \<open>
  C1 as stated fails: a record that is \<open>paid\<close> becomes \<open>cancelled\<close> by
  \<open>updateTransactionStatus\<close>, and \<open>pending\<close> again by a webhook that reports \<open>pending\<close>.
\<close>

theorem status_transitions_counterexample:
  "map_option status (example_store_paid (Some (JStr ''TX1''))) = Some ''paid''
   \<and> map_option status
        (updateTransactionStatus example_store_paid (Some (JStr ''TX1'')) ''cancelled'' None
           (Some (JStr ''TX1'')))
       = Some ''cancelled''
   \<and> map_option status
        (snd (webhook_POST example_hmac example_stringify
               (example_parse (example_payload ''TX1'' ''pending'')) example_newDate
               1700000120000 None example_store_paid None None []) (Some (JStr ''TX1'')))
       = Some ''pending''"
proof -
  have 1: "map_option status (example_store_paid (Some (JStr ''TX1''))) = Some ''paid''"
    by (simp add: example_store_paid_TX1)
  have 2: "map_option status
        (updateTransactionStatus example_store_paid (Some (JStr ''TX1'')) ''cancelled'' None
           (Some (JStr ''TX1'')))
       = Some ''cancelled''"
    by (rule updateTransactionStatus_status [where store = example_store_paid,
          OF example_store_paid_TX1])
  have 3: "map_option status
        (snd (webhook_POST example_hmac example_stringify
               (example_parse (example_payload ''TX1'' ''pending'')) example_newDate
               1700000120000 None example_store_paid None None []) (Some (JStr ''TX1'')))
       = Some ''pending''"
    unfolding webhook_POST_example [where store = example_store_paid and tid = "''TX1''",
        OF _ example_store_paid_TX1, simplified]
    using updateTransactionStatus_status [where store = example_store_paid
        and tid = "Some (JStr ''TX1'')" and st = "''pending''" and p = None,
        OF example_store_paid_TX1]
    by (simp add: mapTrexPayStatus_examples)
  from 1 2 3 show ?thesis by simp
qed

end
